theory Spec2Isabelle
  imports Complex_Main "HOL-Library.Sublist" "HOL-Library.AList"
begin

section \<open>The cookie manager of crawlers/utils/cookiecloud\_manager.py\<close>

text \<open>
  The development embeds the methods of \<^verbatim>\<open>CookieCloudManager\<close> that resolve, cache and
  persist cookies. Python strings are character lists (the domain names and platform
  names are taken to be ASCII), a dict is an association list read with \<open>map_of\<close>,
  the manager object is a record passed in and returned, and everything the methods
  obtain from outside (the clock, the remote client, the file system's faults, the YAML
  library) is a parameter.
\<close>

subsection \<open>Strings\<close>

text \<open>\<^verbatim>\<open>str.lower()\<close> on ASCII text: the letters A to Z are mapped, all else is kept.\<close>

definition lower_char :: "char \<Rightarrow> char" where
  "lower_char c =
     (case map_of (zip ''ABCDEFGHIJKLMNOPQRSTUVWXYZ'' ''abcdefghijklmnopqrstuvwxyz'') c of
        Some l \<Rightarrow> l
      | None \<Rightarrow> c)"

definition lower :: "string \<Rightarrow> string" where
  "lower s = map lower_char s"

text \<open>\<^verbatim>\<open>s.lstrip('.')\<close> removes every leading dot.\<close>

definition lstrip_dot :: "string \<Rightarrow> string" where
  "lstrip_dot s = dropWhile (\<lambda>c. c = CHR ''.'') s"

text \<open>\<^verbatim>\<open>sep.join(parts)\<close>.\<close>

fun join :: "string \<Rightarrow> string list \<Rightarrow> string" where
  "join sep [] = []"
| "join sep [x] = x"
| "join sep (x # y # ys) = x @ sep @ join sep (y # ys)"

subsection \<open>Cookie records and the remote data\<close>

text \<open>
  A cookie record is a dict of which the code reads the keys \<^verbatim>\<open>name\<close>, \<^verbatim>\<open>value\<close> and
  \<^verbatim>\<open>domain\<close>, each with \<^verbatim>\<open>.get(key, '')\<close>: a key may be absent (\<open>None\<close>), and a
  present key holds a string. The other keys of a record are never read.
\<close>

record cookie =
  c_name :: "string option"
  c_value :: "string option"
  c_domain :: "string option"

definition get_or_empty :: "string option \<Rightarrow> string" where
  "get_or_empty field = (case field of None \<Rightarrow> [] | Some s \<Rightarrow> s)"

text \<open>
  The decrypted data maps a domain to a list of records; a value that is not a list
  (such as the one under \<^verbatim>\<open>update_time\<close>) is \<open>NotAList\<close>. The items are kept in the
  dict's order.
\<close>

datatype entry = Cookies "cookie list" | NotAList

type_synonym cookie_data = "(string \<times> entry) list"

text \<open>
  One call of \<^verbatim>\<open>client.get_decrypted_data()\<close> raises, or returns \<^verbatim>\<open>None\<close>
  (\<open>Returned None\<close>), or returns a dict.
\<close>

datatype fetch = Raises | Returned "cookie_data option"

subsection \<open>The YAML values of a platform's configuration file\<close>

datatype yaml = YNull | YScalar string | YSeq "yaml list" | YMap "(string \<times> yaml) list"

text \<open>
  \<^verbatim>\<open>obj[key]\<close> raises KeyError on a dict without the key and TypeError on a value
  that is not a dict (a string, a list and \<^verbatim>\<open>None\<close> take no string subscript);
  \<open>None\<close> is the raise.
\<close>

fun getitem :: "yaml \<Rightarrow> string \<Rightarrow> yaml option" where
  "getitem (YMap kvs) k = map_of kvs k"
| "getitem YNull k = None"
| "getitem (YScalar s) k = None"
| "getitem (YSeq ys) k = None"

text \<open>
  \<^verbatim>\<open>obj[key] = v\<close> replaces the value of a key or appends a new key to a dict, and
  raises TypeError on every other value.
\<close>

fun setitem :: "yaml \<Rightarrow> string \<Rightarrow> yaml \<Rightarrow> yaml option" where
  "setitem (YMap kvs) k v = Some (YMap (AList.update k v kvs))"
| "setitem YNull k v = None"
| "setitem (YScalar s) k v = None"
| "setitem (YSeq ys) k v = None"

text \<open>
  \<^verbatim>\<open>platform_config['TokenManager'][section]['headers'][leaf] = cookie\<close>: three reads,
  one store into the headers dict. The store mutates the nested dict in place, which
  the tree model renders by rebuilding the path.
\<close>

definition set_cookie_field :: "yaml \<Rightarrow> string \<Rightarrow> string \<Rightarrow> string \<Rightarrow> yaml option" where
  "set_cookie_field platform_config section leaf cookie =
     (case getitem platform_config ''TokenManager'' of
        None \<Rightarrow> None
      | Some tm \<Rightarrow>
          (case getitem tm section of
             None \<Rightarrow> None
           | Some sec \<Rightarrow>
               (case getitem sec ''headers'' of
                  None \<Rightarrow> None
                | Some headers \<Rightarrow>
                    (case setitem headers leaf (YScalar cookie) of
                       None \<Rightarrow> None
                     | Some headers' \<Rightarrow>
                         Option.bind (setitem sec ''headers'' headers') (\<lambda>sec'.
                         Option.bind (setitem tm section sec') (\<lambda>tm'.
                         setitem platform_config ''TokenManager'' tm'))))))"

text \<open>
  The YAML library is not part of the repository: \<open>safe_load\<close> parses a file's text
  (\<open>None\<close> when it raises) and \<open>dump\<close> renders a value.
\<close>

record yaml_lib =
  safe_load :: "string \<Rightarrow> yaml option"
  dump :: "yaml \<Rightarrow> string"

subsection \<open>The manager and its environment\<close>

text \<open>
  The fields of the manager object that the methods read or write. \<open>client\<close> says
  whether \<^verbatim>\<open>self.client\<close> is set. Times are seconds as real numbers (the code's
  floats, without rounding).
\<close>

record manager =
  enabled :: bool
  client :: bool
  cache_ttl :: real
  domain_mapping :: "(string \<times> string) list"
  cache :: "string \<rightharpoonup> string"
  cache_timestamps :: "string \<rightharpoonup> real"

text \<open>A write to a file can fail when the file is opened, or after some characters.\<close>

datatype write_fault = NoFault | OpenFails | FailsAfter nat

text \<open>
  What the outside world answers during one call: the clock read in
  \<^verbatim>\<open>_is_cache_valid\<close>, the remote client's answer, the clock read when the cache is
  stored, and the faults of the file system.
\<close>

record env =
  clock_check :: real
  fetched :: fetch
  clock_store :: real
  read_fault :: bool
  write_fault :: write_fault

text \<open>The file system maps a path to the file's text; the operations done are logged.\<close>

type_synonym files = "string \<rightharpoonup> string"

datatype io_event = Probe string | ReadFile string | WriteFile string

subsection \<open>The methods\<close>

definition is_cache_valid :: "manager \<Rightarrow> real \<Rightarrow> string \<Rightarrow> bool" where
  "is_cache_valid m current_time platform =
     (case cache_timestamps m platform of
        None \<Rightarrow> False
      | Some cache_time \<Rightarrow> current_time - cache_time < cache_ttl m)"

definition get_domain_for_platform :: "manager \<Rightarrow> string \<Rightarrow> string" where
  "get_domain_for_platform m platform =
     (case map_of (domain_mapping m) platform of
        Some d \<Rightarrow> d
      | None \<Rightarrow> platform @ ''.com'')"

text \<open>The loop of \<^verbatim>\<open>_format_cookies_for_requests\<close>, appending to \<open>cookie_pairs\<close>.\<close>

fun format_pairs :: "cookie list \<Rightarrow> string list \<Rightarrow> string list" where
  "format_pairs [] cookie_pairs = cookie_pairs"
| "format_pairs (c # cookies) cookie_pairs =
     (let name = get_or_empty (c_name c); val = get_or_empty (c_value c)
      in if name \<noteq> [] \<and> val \<noteq> []
         then format_pairs cookies (cookie_pairs @ [name @ ''='' @ val])
         else format_pairs cookies cookie_pairs)"

definition format_cookies_for_requests :: "cookie list \<Rightarrow> string" where
  "format_cookies_for_requests cookies =
     (if cookies = [] then [] else join ''; '' (format_pairs cookies []))"

text \<open>The condition of the \<^verbatim>\<open>if\<close> in the inner loop of \<^verbatim>\<open>get_cookies\<close>.\<close>

definition domain_matches :: "string \<Rightarrow> cookie \<Rightarrow> bool" where
  "domain_matches target_domain c =
     (let cookie_domain = lower (get_or_empty (c_domain c))
      in cookie_domain = target_domain \<or>
         cookie_domain = ''.'' @ target_domain \<or>
         sublist target_domain cookie_domain \<or>
         lstrip_dot cookie_domain = target_domain \<or>
         suffix (lstrip_dot cookie_domain) target_domain)"

text \<open>The inner loop over one list of records and the outer loop over the items.\<close>

fun match_list :: "string \<Rightarrow> cookie list \<Rightarrow> cookie list \<Rightarrow> cookie list" where
  "match_list target_domain [] matched_cookies = matched_cookies"
| "match_list target_domain (c # cookie_list) matched_cookies =
     (if domain_matches target_domain c
      then match_list target_domain cookie_list (matched_cookies @ [c])
      else match_list target_domain cookie_list matched_cookies)"

fun match_all :: "string \<Rightarrow> cookie_data \<Rightarrow> cookie list \<Rightarrow> cookie list" where
  "match_all target_domain [] matched_cookies = matched_cookies"
| "match_all target_domain ((domain, e) # items) matched_cookies =
     (if domain = ''update_time'' then match_all target_domain items matched_cookies
      else case e of
             Cookies cookie_list \<Rightarrow>
               match_all target_domain items (match_list target_domain cookie_list matched_cookies)
           | NotAList \<Rightarrow> match_all target_domain items matched_cookies)"

text \<open>
  \<^verbatim>\<open>get_cookies\<close> returns the cookie string (\<open>None\<close> for Python's \<^verbatim>\<open>None\<close>) and the
  manager after the call. Every \<^verbatim>\<open>return None\<close> and the \<^verbatim>\<open>except\<close> branch leave
  the manager as it was.
\<close>

definition get_cookies :: "manager \<Rightarrow> env \<Rightarrow> string \<Rightarrow> bool \<Rightarrow> string option \<times> manager" where
  "get_cookies m e platform force_refresh =
     (if \<not> enabled m then (None, m)
      else if \<not> force_refresh \<and> is_cache_valid m (clock_check e) platform
      then (cache m platform, m)
      else if \<not> client m then (None, m)
      else case fetched e of
             Raises \<Rightarrow> (None, m)
           | Returned None \<Rightarrow> (None, m)
           | Returned (Some all_cookies) \<Rightarrow>
               if all_cookies = [] then (None, m)
               else let target_domain = get_domain_for_platform m platform;
                        matched_cookies = match_all target_domain all_cookies []
                    in if matched_cookies = [] then (None, m)
                       else let cookie_string = format_cookies_for_requests matched_cookies
                            in (Some cookie_string,
                                m\<lparr>cache := (cache m)(platform \<mapsto> cookie_string),
                                  cache_timestamps :=
                                    (cache_timestamps m)(platform \<mapsto> clock_store e)\<rparr>))"

text \<open>\<^verbatim>\<open>config_file_map.get(platform)\<close>, under the project root.\<close>

definition config_file_map :: "string \<Rightarrow> string \<Rightarrow> string option" where
  "config_file_map project_root platform =
     (if platform = ''douyin'' then Some (project_root @ ''/crawlers/douyin/web/config.yaml'')
      else if platform = ''tiktok'' then Some (project_root @ ''/crawlers/tiktok/web/config.yaml'')
      else if platform = ''bilibili''
      then Some (project_root @ ''/crawlers/bilibili/web/config.yaml'')
      else None)"

text \<open>The \<^verbatim>\<open>if/elif\<close> chain that stores the cookie; no branch for another name.\<close>

definition update_cookie :: "string \<Rightarrow> yaml \<Rightarrow> string \<Rightarrow> yaml option" where
  "update_cookie platform platform_config cookie =
     (if platform = ''douyin'' then set_cookie_field platform_config ''douyin'' ''Cookie'' cookie
      else if platform = ''tiktok''
      then set_cookie_field platform_config ''tiktok'' ''Cookie'' cookie
      else if platform = ''bilibili''
      then set_cookie_field platform_config ''bilibili'' ''cookie'' cookie
      else Some platform_config)"

text \<open>
  \<^verbatim>\<open>update_config_file\<close> returns its boolean, the files after the call and the file
  operations it did. Opening the file with mode \<^verbatim>\<open>'w'\<close> empties it; \<open>FailsAfter n\<close>
  is a failure of the dump after \<open>n\<close> characters have reached the file. Every
  exception ends in the \<^verbatim>\<open>except\<close> branch, which returns \<^verbatim>\<open>False\<close>.
\<close>

definition update_config_file ::
  "yaml_lib \<Rightarrow> string \<Rightarrow> env \<Rightarrow> string \<Rightarrow> string \<Rightarrow> files \<Rightarrow> bool \<times> files \<times> io_event list" where
  "update_config_file Y project_root e platform cookie fs =
     (case config_file_map project_root platform of
        None \<Rightarrow> (False, fs, [])
      | Some config_file \<Rightarrow>
          (case fs config_file of
             None \<Rightarrow> (False, fs, [Probe config_file])
           | Some text \<Rightarrow>
               if read_fault e then (False, fs, [Probe config_file, ReadFile config_file])
               else (case safe_load Y text of
                      None \<Rightarrow> (False, fs, [Probe config_file, ReadFile config_file])
                    | Some platform_config \<Rightarrow>
                        (case update_cookie platform platform_config cookie of
                           None \<Rightarrow> (False, fs, [Probe config_file, ReadFile config_file])
                         | Some new_config \<Rightarrow>
                             (case write_fault e of
                                OpenFails \<Rightarrow>
                                  (False, fs,
                                   [Probe config_file, ReadFile config_file,
                                    WriteFile config_file])
                              | FailsAfter n \<Rightarrow>
                                  (False, (fs(config_file \<mapsto> take n (dump Y new_config))),
                                   [Probe config_file, ReadFile config_file,
                                    WriteFile config_file])
                              | NoFault \<Rightarrow>
                                  (True, (fs(config_file \<mapsto> dump Y new_config)),
                                   [Probe config_file, ReadFile config_file,
                                    WriteFile config_file]))))))"

text \<open>
  \<^verbatim>\<open>dict.keys()\<close>: every key once, in the order of first occurrence (\<open>map_of\<close> reads
  the first occurrence too).
\<close>

fun dict_keys :: "('k \<times> 'v) list \<Rightarrow> 'k list" where
  "dict_keys [] = []"
| "dict_keys ((k, v) # kvs) = k # filter (\<lambda>k'. k' \<noteq> k) (dict_keys kvs)"

text \<open>
  The state of the loop of \<^verbatim>\<open>refresh_all_cookies\<close>: the manager, the files, the
  \<^verbatim>\<open>results\<close> dict and the file operations so far. A platform is visited once, so the
  world's answers during its turn are \<open>E platform\<close>.
\<close>

record refresh_state =
  mgr :: manager
  disk :: files
  results :: "string \<rightharpoonup> bool"
  io_log :: "io_event list"

definition refresh_step ::
  "yaml_lib \<Rightarrow> string \<Rightarrow> (string \<Rightarrow> env) \<Rightarrow> string \<Rightarrow> refresh_state \<Rightarrow> refresh_state" where
  "refresh_step Y project_root E platform s =
     (case get_cookies (mgr s) (E platform) platform True of
        (Some cookie, m') \<Rightarrow>
          if cookie \<noteq> []
          then (case update_config_file Y project_root (E platform) platform cookie (disk s) of
                  (success, fs', evs) \<Rightarrow>
                    s\<lparr>mgr := m', disk := fs', results := (results s)(platform \<mapsto> success),
                      io_log := io_log s @ evs\<rparr>)
          else s\<lparr>mgr := m', results := (results s)(platform \<mapsto> False)\<rparr>
      | (None, m') \<Rightarrow> s\<lparr>mgr := m', results := (results s)(platform \<mapsto> False)\<rparr>)"

definition refresh_all_cookies ::
  "yaml_lib \<Rightarrow> string \<Rightarrow> (string \<Rightarrow> env) \<Rightarrow> manager \<Rightarrow> files \<Rightarrow> refresh_state" where
  "refresh_all_cookies Y project_root E m fs =
     fold (refresh_step Y project_root E) (dict_keys (domain_mapping m))
       \<lparr>mgr = m, disk = fs, results = Map.empty, io_log = []\<rparr>"

subsection \<open>The specification's wording of the matching rule and of the formatting\<close>

text \<open>
  The rule as the specification words it, on a record's domain \<open>d\<close> and a target \<open>t\<close>,
  both compared without regard to case: equal; equal to the target after a dot; the
  target a substring; equal after one leading dot is stripped; the target ending with
  the dot-stripped domain.
\<close>

definition strip_one_dot :: "string \<Rightarrow> string" where
  "strip_one_dot s = (case s of [] \<Rightarrow> [] | c # r \<Rightarrow> if c = CHR ''.'' then r else s)"

definition spec_domain_rule :: "string \<Rightarrow> string \<Rightarrow> bool" where
  "spec_domain_rule d t =
     (let d' = lower d; t' = lower t
      in d' = t' \<or> d' = ''.'' @ t' \<or> sublist t' d' \<or> strip_one_dot d' = t' \<or>
         suffix (lstrip_dot d') t')"

text \<open>
  The formatting as the specification words it: the records with a non-empty name and a
  non-empty value, each rendered \<open>name=value\<close>, joined in order with \<open>; \<close>.
\<close>

definition format_spec :: "cookie list \<Rightarrow> string" where
  "format_spec cookies =
     join ''; ''
       (map (\<lambda>c. get_or_empty (c_name c) @ ''='' @ get_or_empty (c_value c))
          (filter (\<lambda>c. get_or_empty (c_name c) \<noteq> [] \<and> get_or_empty (c_value c) \<noteq> [])
             cookies))"

subsection \<open>The specification's refresh of one platform\<close>

text \<open>
  The specification's \<open>refreshAndPersist\<close>: the forced resolution, followed by the
  persist when the resolution gave a cookie; it succeeds when both do. The loop of
  \<^verbatim>\<open>refresh_all_cookies\<close> tests the cookie with \<^verbatim>\<open>if cookie:\<close>, so a resolution that
  gives the empty string is followed by no persist.
\<close>

definition refresh_and_persist ::
  "yaml_lib \<Rightarrow> string \<Rightarrow> env \<Rightarrow> manager \<Rightarrow> files \<Rightarrow> string \<Rightarrow> bool" where
  "refresh_and_persist Y project_root e m fs platform =
     (case fst (get_cookies m e platform True) of
        None \<Rightarrow> False
      | Some cookie \<Rightarrow>
          cookie \<noteq> [] \<and> fst (update_config_file Y project_root e platform cookie fs))"

subsection \<open>Sample inputs\<close>

definition sample_cookie :: "string \<Rightarrow> string \<Rightarrow> string \<Rightarrow> cookie" where
  "sample_cookie n v d = \<lparr>c_name = Some n, c_value = Some v, c_domain = Some d\<rparr>"

text \<open>
  A manager with two mapped platforms and an entry for douyin cached at time 1000.
\<close>

definition sample_manager :: manager where
  "sample_manager =
     \<lparr>enabled = True, client = True, cache_ttl = 3600,
      domain_mapping = [(''douyin'', ''douyin.com''), (''bilibili'', ''bilibili.com'')],
      cache = [''douyin'' \<mapsto> ''sessionid=old''],
      cache_timestamps = [''douyin'' \<mapsto> 1000]\<rparr>"

definition sample_data :: cookie_data where
  "sample_data =
     [(''update_time'', NotAList),
      (''douyin.com'',
         Cookies [sample_cookie ''sessionid'' ''abc'' ''.douyin.com'',
                  sample_cookie ''ttwid'' [] ''www.douyin.com'']),
      (''youtube.com'', Cookies [sample_cookie ''SID'' ''xyz'' ''.youtube.com''])]"

definition sample_env :: "fetch \<Rightarrow> write_fault \<Rightarrow> env" where
  "sample_env f w =
     \<lparr>clock_check = 5000, fetched = f, clock_store = 5001, read_fault = False,
      write_fault = w\<rparr>"

text \<open>
  The configuration of one platform as its file holds it, and a stand-in for the YAML
  library that reads and writes such a configuration as the text \<open>cookie=\<close> followed
  by the cookie.
\<close>

definition sample_config :: "string \<Rightarrow> string \<Rightarrow> string \<Rightarrow> yaml" where
  "sample_config section leaf cookie =
     YMap [(''TokenManager'',
            YMap [(section,
                   YMap [(''headers'',
                          YMap [(''User-Agent'', YScalar ''Mozilla/5.0''),
                                (leaf, YScalar cookie)]),
                         (''proxies'', YNull)])])]"

definition sample_cookie_text :: "string \<Rightarrow> string \<Rightarrow> yaml \<Rightarrow> string option" where
  "sample_cookie_text section leaf y =
     (case Option.bind (Option.bind (Option.bind (getitem y ''TokenManager'')
             (\<lambda>tm. getitem tm section)) (\<lambda>sec. getitem sec ''headers''))
             (\<lambda>headers. getitem headers leaf) of
        Some (YScalar c) \<Rightarrow> Some c
      | _ \<Rightarrow> None)"

definition sample_lib :: "string \<Rightarrow> string \<Rightarrow> yaml_lib" where
  "sample_lib section leaf =
     \<lparr>safe_load = (\<lambda>text. if take 7 text = ''cookie=''
                          then Some (sample_config section leaf (drop 7 text)) else None),
      dump = (\<lambda>y. case sample_cookie_text section leaf y of
                     Some c \<Rightarrow> ''cookie='' @ c
                   | None \<Rightarrow> ''?'')\<rparr>"

definition sample_files :: files where
  "sample_files =
     [''/app/crawlers/douyin/web/config.yaml'' \<mapsto> ''cookie=old'',
      ''/app/crawlers/tiktok/web/config.yaml'' \<mapsto> ''cookie=old-tiktok'',
      ''/app/crawlers/bilibili/web/config.yaml'' \<mapsto> ''not yaml'']"

text \<open>The remote call succeeds during the turn of douyin and raises during any other.\<close>

definition sample_world :: "string \<Rightarrow> env" where
  "sample_world platform =
     (if platform = ''douyin'' then sample_env (Returned (Some sample_data)) NoFault
      else sample_env Raises NoFault)"

text \<open>A manager whose mapping has a platform beyond the three with a configuration file.\<close>

definition sample_manager_youtube :: manager where
  "sample_manager_youtube =
     sample_manager\<lparr>domain_mapping :=
       [(''douyin'', ''douyin.com''), (''youtube'', ''youtube.com'')]\<rparr>"

section \<open>Formatting\<close>

lemma format_pairs_acc:
  "format_pairs cs acc =
     acc @ map (\<lambda>c. get_or_empty (c_name c) @ ''='' @ get_or_empty (c_value c))
             (filter (\<lambda>c. get_or_empty (c_name c) \<noteq> [] \<and> get_or_empty (c_value c) \<noteq> []) cs)"
  by (induction cs arbitrary: acc) (simp_all add: Let_def)

text \<open>
  Claim C8. For every list of matched records, \<^verbatim>\<open>_format_cookies_for_requests\<close> gives
  the \<open>name=value\<close> pairs of the records whose name and value are both non-empty,
  in order, joined with \<open>; \<close>; the empty list gives the empty string. The function
  is total: on records whose fields are strings no step of it raises.
\<close>

theorem format_cookies_for_requests_spec:
  "format_cookies_for_requests cookies = format_spec cookies \<and>
   format_cookies_for_requests [] = []"
proof
  show "format_cookies_for_requests cookies = format_spec cookies"
  proof (cases cookies)
    case Nil
    then show ?thesis
      by (simp add: format_cookies_for_requests_def format_spec_def)
  next
    case (Cons c cs)
    then have "format_cookies_for_requests cookies = join ''; '' (format_pairs cookies [])"
      by (simp add: format_cookies_for_requests_def)
    then show ?thesis
      by (simp add: format_spec_def format_pairs_acc)
  qed
  show "format_cookies_for_requests [] = []"
    by (simp add: format_cookies_for_requests_def)
qed

section \<open>The validity of a cache entry\<close>

text \<open>
  Claim C4. A platform with the stored timestamp \<open>t\<close> is reported valid at the time
  \<open>now\<close> exactly when \<open>now - t < cache_ttl\<close>: an entry of age \<open>cache_ttl - 1\<close> is
  valid, an entry of age \<open>cache_ttl\<close> is not, and a platform without a stored
  timestamp is never valid.
\<close>

theorem is_cache_valid_iff:
  "(cache_timestamps m p = Some t \<longrightarrow>
      (is_cache_valid m now p \<longleftrightarrow> now - t < cache_ttl m)) \<and>
   (cache_timestamps m p = Some t \<and> now - t = cache_ttl m - 1 \<longrightarrow> is_cache_valid m now p) \<and>
   (cache_timestamps m p = Some t \<and> now - t = cache_ttl m \<longrightarrow> \<not> is_cache_valid m now p) \<and>
   (cache_timestamps m p = None \<longrightarrow> \<not> is_cache_valid m now p)"
  by (simp add: is_cache_valid_def)

theorem is_cache_valid_iff_witness:
  "is_cache_valid sample_manager 4599 ''douyin'' \<and>
   \<not> is_cache_valid sample_manager 4600 ''douyin'' \<and>
   \<not> is_cache_valid sample_manager 4600 ''bilibili''"
proof -
  have stamp: "cache_timestamps sample_manager ''douyin'' = Some 1000"
    by (simp add: sample_manager_def)
  have none: "cache_timestamps sample_manager ''bilibili'' = None"
    by (simp add: sample_manager_def)
  have ttl: "cache_ttl sample_manager = 3600"
    by (simp add: sample_manager_def)
  have young: "is_cache_valid sample_manager 4599 ''douyin''"
    using is_cache_valid_iff [of sample_manager "''douyin''" 1000 4599] stamp ttl by simp
  have old: "\<not> is_cache_valid sample_manager 4600 ''douyin''"
    using is_cache_valid_iff [of sample_manager "''douyin''" 1000 4600] stamp ttl by simp
  have absent: "\<not> is_cache_valid sample_manager 4600 ''bilibili''"
    using is_cache_valid_iff [of sample_manager "''bilibili''" 0 4600] none by simp
  from young old absent show ?thesis by simp
qed

section \<open>The matching rule\<close>

lemma domain_matches_field:
  "domain_matches t (c\<lparr>c_domain := Some d\<rparr>) = domain_matches t (sample_cookie ''n'' ''v'' d)"
  by (simp add: domain_matches_def sample_cookie_def)

lemma lstrip_dot_suffix: "suffix (lstrip_dot s) s"
  unfolding lstrip_dot_def by (metis suffixI takeWhile_dropWhile_id)

lemma strip_one_dot_suffix: "suffix (strip_one_dot s) s"
  by (auto simp: strip_one_dot_def suffix_def split: list.splits)

text \<open>
  The first, second and fourth disjuncts of the code's condition are cases of the third:
  the condition is the substring test or the reverse suffix test.
\<close>

lemma domain_matches_reduced:
  "domain_matches t c \<longleftrightarrow>
     sublist t (lower (get_or_empty (c_domain c))) \<or>
     suffix (lstrip_dot (lower (get_or_empty (c_domain c)))) t"
proof -
  let ?d = "lower (get_or_empty (c_domain c))"
  have a: "?d = t \<Longrightarrow> sublist t ?d" by simp
  have b: "?d = ''.'' @ t \<Longrightarrow> sublist t ?d"
    by (metis suffix_imp_sublist suffixI)
  have c: "lstrip_dot ?d = t \<Longrightarrow> sublist t ?d"
    using lstrip_dot_suffix [of ?d] by (auto intro: suffix_imp_sublist)
  show ?thesis
    unfolding domain_matches_def Let_def using a b c by blast
qed

lemma spec_domain_rule_reduced:
  "spec_domain_rule d t \<longleftrightarrow>
     sublist (lower t) (lower d) \<or> suffix (lstrip_dot (lower d)) (lower t)"
proof -
  have a: "lower d = lower t \<Longrightarrow> sublist (lower t) (lower d)" by simp
  have b: "lower d = ''.'' @ lower t \<Longrightarrow> sublist (lower t) (lower d)"
    by (metis suffix_imp_sublist suffixI)
  have c: "strip_one_dot (lower d) = lower t \<Longrightarrow> sublist (lower t) (lower d)"
    using strip_one_dot_suffix [of "lower d"] by (auto intro: suffix_imp_sublist)
  show ?thesis
    unfolding spec_domain_rule_def Let_def using a b c by blast
qed

text \<open>
  On a target written in lower case the code's condition is the specification's rule.
\<close>

lemma domain_matches_lower_target:
  "lower t = t \<Longrightarrow> domain_matches t c \<longleftrightarrow> spec_domain_rule (get_or_empty (c_domain c)) t"
  by (simp add: domain_matches_reduced spec_domain_rule_reduced)

text \<open>
  Claim C7. The record's domain is lowered before the comparison and the target is not:
  for the target \<open>Bilibili.com\<close> and a record of domain \<open>bilibili.com\<close> the
  specification's rule, which compares without regard to case, selects the record, and
  the code's condition does not.
\<close>

theorem domain_matches_uppercase_target:
  "spec_domain_rule ''bilibili.com'' ''Bilibili.com'' \<and>
   \<not> domain_matches ''Bilibili.com'' (sample_cookie ''SESSDATA'' ''abc'' ''bilibili.com'')"
  by code_simp

text \<open>
  Claim C2, as amended. For the target \<open>bilibili.com\<close> the condition accepts a record
  whose domain is \<open>bilibili.com\<close>, \<open>.bilibili.com\<close>, \<open>live.bilibili.com\<close> or
  \<open>m.bilibili.com\<close>, and it accepts \<open>notbilibili.com\<close> as well, of which the target
  is a substring; a record of domain \<open>example.org\<close> is rejected.
\<close>

theorem domain_matches_bilibili:
  "domain_matches ''bilibili.com'' (c\<lparr>c_domain := Some ''bilibili.com''\<rparr>) \<and>
   domain_matches ''bilibili.com'' (c\<lparr>c_domain := Some ''.bilibili.com''\<rparr>) \<and>
   domain_matches ''bilibili.com'' (c\<lparr>c_domain := Some ''live.bilibili.com''\<rparr>) \<and>
   domain_matches ''bilibili.com'' (c\<lparr>c_domain := Some ''m.bilibili.com''\<rparr>) \<and>
   domain_matches ''bilibili.com'' (c\<lparr>c_domain := Some ''notbilibili.com''\<rparr>) \<and>
   \<not> domain_matches ''bilibili.com'' (c\<lparr>c_domain := Some ''example.org''\<rparr>)"
  unfolding domain_matches_field by code_simp

text \<open>
  The claim as stated fails: the record of domain \<open>notbilibili.com\<close> is accepted.
\<close>

theorem domain_matches_notbilibili:
  "domain_matches ''bilibili.com'' (sample_cookie ''SESSDATA'' ''abc'' ''notbilibili.com'')"
  by code_simp

section \<open>Resolving a platform's cookies\<close>

text \<open>
  Claim C5. A call of \<^verbatim>\<open>get_cookies\<close> that returns \<^verbatim>\<open>None\<close> returns the manager as
  it was, cache and timestamps of every platform included. An enabled manager's forced
  or cache-missing call returns \<^verbatim>\<open>None\<close> when the remote call raises, returns
  \<^verbatim>\<open>None\<close> or an empty dict, or no record matches the platform's target domain.
\<close>

theorem get_cookies_failure_keeps_cache:
  "(fst (get_cookies m e p force) = None \<longrightarrow> snd (get_cookies m e p force) = m) \<and>
   (enabled m \<and> (force \<or> \<not> is_cache_valid m (clock_check e) p) \<and>
      (fetched e = Raises \<or> fetched e = Returned None \<or> fetched e = Returned (Some []) \<or>
       (\<exists>all_cookies. fetched e = Returned (Some all_cookies) \<and>
          match_all (get_domain_for_platform m p) all_cookies [] = []))
    \<longrightarrow> get_cookies m e p force = (None, m))"
proof
  show "fst (get_cookies m e p force) = None \<longrightarrow> snd (get_cookies m e p force) = m"
    by (simp add: get_cookies_def Let_def split: fetch.splits option.splits)
  show "enabled m \<and> (force \<or> \<not> is_cache_valid m (clock_check e) p) \<and>
      (fetched e = Raises \<or> fetched e = Returned None \<or> fetched e = Returned (Some []) \<or>
       (\<exists>all_cookies. fetched e = Returned (Some all_cookies) \<and>
          match_all (get_domain_for_platform m p) all_cookies [] = []))
    \<longrightarrow> get_cookies m e p force = (None, m)"
    by (auto simp add: get_cookies_def Let_def)
qed

theorem get_cookies_failure_keeps_cache_witness:
  "get_cookies sample_manager (sample_env Raises NoFault) ''douyin'' True = (None, sample_manager) \<and>
   get_cookies sample_manager (sample_env (Returned (Some sample_data)) NoFault) ''bilibili'' True
     = (None, sample_manager) \<and>
   cache sample_manager ''douyin'' = Some ''sessionid=old''"
proof -
  have en: "enabled sample_manager" by (simp add: sample_manager_def)
  have f1: "fetched (sample_env Raises NoFault) = Raises" by (simp add: sample_env_def)
  have f2: "fetched (sample_env (Returned (Some sample_data)) NoFault) = Returned (Some sample_data)"
    by (simp add: sample_env_def)
  have dm: "get_domain_for_platform sample_manager ''bilibili'' = ''bilibili.com''"
    by (simp add: get_domain_for_platform_def sample_manager_def)
  have nomatch: "match_all ''bilibili.com'' sample_data [] = []" by code_simp
  have a: "get_cookies sample_manager (sample_env Raises NoFault) ''douyin'' True = (None, sample_manager)"
    using get_cookies_failure_keeps_cache [of sample_manager "sample_env Raises NoFault" "''douyin''" True]
      en f1 by simp
  have b: "get_cookies sample_manager (sample_env (Returned (Some sample_data)) NoFault) ''bilibili'' True
     = (None, sample_manager)"
    using get_cookies_failure_keeps_cache
      [of sample_manager "sample_env (Returned (Some sample_data)) NoFault" "''bilibili''" True]
      en f2 dm nomatch by simp
  have c: "cache sample_manager ''douyin'' = Some ''sessionid=old''"
    by (simp add: sample_manager_def)
  from a b c show ?thesis by simp
qed

text \<open>
  Claim C9. For a platform that is not a key of the mapping the target domain is the
  platform's name followed by \<open>.com\<close>, and a forced resolution goes on with it: when
  a record of the remote data matches that domain the call returns the formatted string.
\<close>

theorem get_domain_for_platform_unmapped:
  "platform \<notin> fst ` set (domain_mapping m) \<Longrightarrow>
     get_domain_for_platform m platform = platform @ ''.com'' \<and>
     (enabled m \<and> client m \<and> fetched e = Returned (Some all_cookies) \<and>
      match_all (platform @ ''.com'') all_cookies [] \<noteq> [] \<longrightarrow>
        fst (get_cookies m e platform True) =
          Some (format_cookies_for_requests (match_all (platform @ ''.com'') all_cookies [])))"
proof -
  assume "platform \<notin> fst ` set (domain_mapping m)"
  then have none: "map_of (domain_mapping m) platform = None"
    by (simp add: map_of_eq_None_iff)
  then have dom: "get_domain_for_platform m platform = platform @ ''.com''"
    by (simp add: get_domain_for_platform_def)
  show ?thesis
    using dom by (auto simp add: get_cookies_def Let_def)
qed

theorem get_domain_for_platform_unmapped_witness:
  "get_domain_for_platform sample_manager ''youtube'' = ''youtube.com'' \<and>
   fst (get_cookies sample_manager (sample_env (Returned (Some sample_data)) NoFault) ''youtube'' True)
     = Some ''SID=xyz''"
proof -
  have un: "''youtube'' \<notin> fst ` set (domain_mapping sample_manager)"
    by (simp add: sample_manager_def)
  have m: "match_all (''youtube'' @ ''.com'') sample_data [] = [sample_cookie ''SID'' ''xyz'' ''.youtube.com'']"
    by code_simp
  have f: "format_cookies_for_requests [sample_cookie ''SID'' ''xyz'' ''.youtube.com''] = ''SID=xyz''"
    by code_simp
  have pre: "enabled sample_manager \<and> client sample_manager \<and>
     fetched (sample_env (Returned (Some sample_data)) NoFault) = Returned (Some sample_data)"
    by (simp add: sample_manager_def sample_env_def)
  show ?thesis
    using get_domain_for_platform_unmapped
      [OF un, of "sample_env (Returned (Some sample_data)) NoFault" sample_data] m f pre
    by simp
qed

section \<open>Persisting a cookie\<close>

text \<open>
  The three configuration files are distinct, and \<^verbatim>\<open>update_config_file\<close> reads
  and writes the file of its own platform only.
\<close>

lemma config_file_map_inj:
  "config_file_map pr p = Some path \<Longrightarrow> config_file_map pr q = Some path \<Longrightarrow> p = q"
  by (auto simp: config_file_map_def split: if_splits)

lemma config_file_map_Some:
  "config_file_map pr p = Some path \<Longrightarrow> p \<in> {''douyin'', ''tiktok'', ''bilibili''}"
  by (auto simp: config_file_map_def split: if_splits)

lemma update_config_file_frame:
  "config_file_map pr p \<noteq> Some path \<Longrightarrow>
     fst (snd (update_config_file Y pr e p c fs)) path = fs path"
  by (auto simp: update_config_file_def split: option.splits write_fault.splits)

lemma update_config_file_events:
  "ev \<in> set (snd (snd (update_config_file Y pr e p c fs))) \<Longrightarrow>
     \<exists>path. config_file_map pr p = Some path \<and> ev \<in> {Probe path, ReadFile path, WriteFile path}"
  by (auto simp: update_config_file_def split: option.splits write_fault.splits if_splits)

lemma update_config_file_local:
  "(\<And>path. config_file_map pr p = Some path \<Longrightarrow> fs path = fs2 path) \<Longrightarrow>
     fst (update_config_file Y pr e p c fs) = fst (update_config_file Y pr e p c fs2)"
  by (auto simp: update_config_file_def split: option.splits write_fault.splits)

section \<open>The refresh of all platforms\<close>

text \<open>
  A call of \<^verbatim>\<open>get_cookies\<close> keeps the manager's configuration and the cache entries of
  the other platforms, and the result of a forced call does not depend on the cache.
\<close>

lemma get_cookies_config:
  "enabled (snd (get_cookies m e p f)) = enabled m \<and>
   client (snd (get_cookies m e p f)) = client m \<and>
   cache_ttl (snd (get_cookies m e p f)) = cache_ttl m \<and>
   domain_mapping (snd (get_cookies m e p f)) = domain_mapping m"
  by (simp add: get_cookies_def Let_def split: fetch.splits option.splits)

lemma get_cookies_other:
  "q \<noteq> p \<Longrightarrow>
     cache (snd (get_cookies m e p f)) q = cache m q \<and>
     cache_timestamps (snd (get_cookies m e p f)) q = cache_timestamps m q"
  by (simp add: get_cookies_def Let_def split: fetch.splits option.splits)

lemma get_cookies_forced_cong:
  "enabled m = enabled m2 \<Longrightarrow> client m = client m2 \<Longrightarrow> domain_mapping m = domain_mapping m2 \<Longrightarrow>
     fst (get_cookies m e p True) = fst (get_cookies m2 e p True)"
  by (simp add: get_cookies_def get_domain_for_platform_def Let_def split: fetch.splits option.splits)

text \<open>One turn of the loop.\<close>

lemma refresh_and_persist_cong:
  "enabled m = enabled m2 \<Longrightarrow> client m = client m2 \<Longrightarrow> domain_mapping m = domain_mapping m2 \<Longrightarrow>
   (\<And>path. config_file_map pr p = Some path \<Longrightarrow> fs path = fs2 path) \<Longrightarrow>
     refresh_and_persist Y pr e m fs p = refresh_and_persist Y pr e m2 fs2 p"
  unfolding refresh_and_persist_def
  using get_cookies_forced_cong [of m m2 e p] update_config_file_local [of pr p fs fs2 Y e]
  by (simp split: option.splits)

lemma refresh_step_mgr:
  "mgr (refresh_step Y pr E p s) = snd (get_cookies (mgr s) (E p) p True)"
  by (simp add: refresh_step_def split: prod.splits option.splits)

lemma refresh_step_result:
  "results (refresh_step Y pr E p s) =
     (results s)(p \<mapsto> refresh_and_persist Y pr (E p) (mgr s) (disk s) p)"
  by (auto simp add: refresh_step_def refresh_and_persist_def split: prod.splits option.splits)

lemma refresh_step_disk:
  "config_file_map pr p \<noteq> Some path \<Longrightarrow> disk (refresh_step Y pr E p s) path = disk s path"
proof -
  assume other: "config_file_map pr p \<noteq> Some path"
  have frame: "\<And>c ok fs' evs. update_config_file Y pr (E p) p c (disk s) = (ok, fs', evs) \<Longrightarrow>
      fs' path = disk s path"
    using update_config_file_frame [OF other, of Y "E p" _ "disk s"]
    by (metis fst_conv snd_conv)
  show ?thesis
    by (auto simp add: refresh_step_def frame split: prod.splits option.splits)
qed

lemma refresh_step_log:
  "ev \<in> set (io_log (refresh_step Y pr E p s)) \<Longrightarrow>
     ev \<in> set (io_log s) \<or>
     (\<exists>path. config_file_map pr p = Some path \<and> ev \<in> {Probe path, ReadFile path, WriteFile path})"
proof (cases "get_cookies (mgr s) (E p) p True")
  case (Pair r m')
  assume ev: "ev \<in> set (io_log (refresh_step Y pr E p s))"
  show ?thesis
  proof (cases r)
    case None
    with Pair ev show ?thesis by (simp add: refresh_step_def)
  next
    case (Some cookie)
    show ?thesis
    proof (cases "cookie = []")
      case True
      with Pair Some ev show ?thesis by (simp add: refresh_step_def)
    next
      case False
      obtain ok fs' evs where u: "update_config_file Y pr (E p) p cookie (disk s) = (ok, fs', evs)"
        by (cases "update_config_file Y pr (E p) p cookie (disk s)") auto
      with Pair Some False ev have "ev \<in> set (io_log s) \<or> ev \<in> set evs"
        by (auto simp add: refresh_step_def)
      moreover have "ev \<in> set evs \<Longrightarrow>
        \<exists>path. config_file_map pr p = Some path \<and> ev \<in> {Probe path, ReadFile path, WriteFile path}"
        using update_config_file_events [of ev Y pr "E p" p cookie "disk s"] u by simp
      ultimately show ?thesis by blast
    qed
  qed
qed

text \<open>
  The whole loop, by induction on the platforms still to visit with the state
  generalised.
\<close>

lemma dict_keys_set: "set (dict_keys kvs) = fst ` set kvs"
  by (induction kvs rule: dict_keys.induct) auto

lemma dict_keys_distinct: "distinct (dict_keys kvs)"
  by (induction kvs rule: dict_keys.induct) (auto simp: distinct_filter)

lemma refresh_fold_config:
  "enabled (mgr (fold (refresh_step Y pr E) ps s)) = enabled (mgr s) \<and>
   client (mgr (fold (refresh_step Y pr E) ps s)) = client (mgr s) \<and>
   domain_mapping (mgr (fold (refresh_step Y pr E) ps s)) = domain_mapping (mgr s)"
  by (induction ps arbitrary: s) (simp_all add: refresh_step_mgr get_cookies_config)

lemma refresh_fold_untouched:
  "p \<notin> set ps \<Longrightarrow>
     results (fold (refresh_step Y pr E) ps s) p = results s p \<and>
     cache (mgr (fold (refresh_step Y pr E) ps s)) p = cache (mgr s) p \<and>
     cache_timestamps (mgr (fold (refresh_step Y pr E) ps s)) p = cache_timestamps (mgr s) p"
proof (induction ps arbitrary: s)
  case Nil
  then show ?case by simp
next
  case (Cons x xs)
  then have ne: "p \<noteq> x" and rest: "p \<notin> set xs" by auto
  show ?case
    using Cons.IH [OF rest, of "refresh_step Y pr E x s"] ne
    by (simp add: refresh_step_result refresh_step_mgr get_cookies_other)
qed

lemma refresh_fold_disk:
  "p \<notin> set ps \<Longrightarrow> config_file_map pr p = Some path \<Longrightarrow>
     disk (fold (refresh_step Y pr E) ps s) path = disk s path"
proof (induction ps arbitrary: s)
  case Nil
  then show ?case by simp
next
  case (Cons x xs)
  then have ne: "p \<noteq> x" and rest: "p \<notin> set xs" by auto
  have "config_file_map pr x \<noteq> Some path"
    using config_file_map_inj [of pr x path p] Cons.prems(2) ne by auto
  then have "disk (refresh_step Y pr E x s) path = disk s path"
    by (rule refresh_step_disk)
  with Cons.IH [OF rest Cons.prems(2), of "refresh_step Y pr E x s"] show ?case by simp
qed

lemma refresh_fold_log:
  "p \<notin> set ps \<Longrightarrow> config_file_map pr p = Some path \<Longrightarrow>
   ev \<in> {Probe path, ReadFile path, WriteFile path} \<Longrightarrow>
   ev \<in> set (io_log (fold (refresh_step Y pr E) ps s)) \<Longrightarrow> ev \<in> set (io_log s)"
proof (induction ps arbitrary: s)
  case Nil
  then show ?case by simp
next
  case (Cons x xs)
  then have ne: "p \<noteq> x" and rest: "p \<notin> set xs" by auto
  have in_step: "ev \<in> set (io_log (refresh_step Y pr E x s))"
    using Cons.IH [OF rest Cons.prems(2) Cons.prems(3), of "refresh_step Y pr E x s"] Cons.prems(4)
    by simp
  have "\<not> (\<exists>path'. config_file_map pr x = Some path' \<and>
              ev \<in> {Probe path', ReadFile path', WriteFile path'})"
    using config_file_map_inj [of pr x path p] Cons.prems(2,3) ne by auto
  with refresh_step_log [OF in_step] show ?case by blast
qed

lemma refresh_fold_result:
  "distinct ps \<Longrightarrow> p \<in> set ps \<Longrightarrow>
     results (fold (refresh_step Y pr E) ps s) p =
       Some (refresh_and_persist Y pr (E p) (mgr s) (disk s) p)"
proof (induction ps arbitrary: s)
  case Nil
  then show ?case by simp
next
  case (Cons x xs)
  show ?case
  proof (cases "p = x")
    case True
    with Cons.prems have "p \<notin> set xs" by simp
    then have "results (fold (refresh_step Y pr E) xs (refresh_step Y pr E x s)) p =
        results (refresh_step Y pr E x s) p"
      using refresh_fold_untouched by blast
    with True show ?thesis by (simp add: refresh_step_result)
  next
    case False
    with Cons.prems have dist: "distinct xs" and mem: "p \<in> set xs" by auto
    have disk_same: "\<And>path. config_file_map pr p = Some path \<Longrightarrow>
        disk (refresh_step Y pr E x s) path = disk s path"
    proof -
      fix path
      assume "config_file_map pr p = Some path"
      then have "config_file_map pr x \<noteq> Some path"
        using config_file_map_inj [of pr x path p] False by auto
      then show "disk (refresh_step Y pr E x s) path = disk s path"
        by (rule refresh_step_disk)
    qed
    have "refresh_and_persist Y pr (E p) (mgr (refresh_step Y pr E x s))
            (disk (refresh_step Y pr E x s)) p =
          refresh_and_persist Y pr (E p) (mgr s) (disk s) p"
      by (rule refresh_and_persist_cong)
         (simp_all add: refresh_step_mgr get_cookies_config disk_same)
    with Cons.IH [OF dist mem, of "refresh_step Y pr E x s"] show ?thesis by simp
  qed
qed

lemma refresh_fold_dom:
  "dom (results (fold (refresh_step Y pr E) ps s)) = dom (results s) \<union> set ps"
  by (induction ps arbitrary: s) (auto simp add: refresh_step_result)

lemma refresh_loop_entry:
  "p \<in> fst ` set (domain_mapping m) \<Longrightarrow>
     results (refresh_all_cookies Y pr E m fs) p = Some (refresh_and_persist Y pr (E p) m fs p)"
  unfolding refresh_all_cookies_def
  using refresh_fold_result [of "dict_keys (domain_mapping m)" p Y pr E
      "\<lparr>mgr = m, disk = fs, results = Map.empty, io_log = []\<rparr>"]
  by (simp add: dict_keys_distinct dict_keys_set)

lemma refresh_loop_keys:
  "dom (results (refresh_all_cookies Y pr E m fs)) = fst ` set (domain_mapping m)"
  unfolding refresh_all_cookies_def by (simp add: refresh_fold_dom dict_keys_set)

section \<open>The claims on persisting and on the refresh of all platforms\<close>

text \<open>
  Claim C1, as amended. When \<^verbatim>\<open>update_config_file\<close> fails before the dump has begun
  (the file is missing, it cannot be read or parsed, the field path does not resolve, or
  the file cannot be opened for writing) every file is as it was. The write is done in
  place: a call that fails and changes a file is one whose dump failed after \<open>n\<close>
  characters, and the platform's file then holds the first \<open>n\<close> characters of the new
  text. No call touches a file other than the platform's own.
\<close>

theorem update_config_file_failure:
  "(\<not> fst (update_config_file Y pr e p c fs) \<and> (\<forall>n. write_fault e \<noteq> FailsAfter n) \<longrightarrow>
      fst (snd (update_config_file Y pr e p c fs)) = fs) \<and>
   (config_file_map pr p \<noteq> Some path \<longrightarrow>
      fst (snd (update_config_file Y pr e p c fs)) path = fs path) \<and>
   (\<not> fst (update_config_file Y pr e p c fs) \<and> fst (snd (update_config_file Y pr e p c fs)) \<noteq> fs \<longrightarrow>
      (\<exists>n file text cfg new_config.
         write_fault e = FailsAfter n \<and> config_file_map pr p = Some file \<and>
         fs file = Some text \<and> safe_load Y text = Some cfg \<and>
         update_cookie p cfg c = Some new_config \<and>
         fst (snd (update_config_file Y pr e p c fs)) = fs(file \<mapsto> take n (dump Y new_config))))"
proof (intro conjI)
  show "\<not> fst (update_config_file Y pr e p c fs) \<and> (\<forall>n. write_fault e \<noteq> FailsAfter n) \<longrightarrow>
      fst (snd (update_config_file Y pr e p c fs)) = fs"
    by (auto simp: update_config_file_def split: option.splits write_fault.splits)
  show "config_file_map pr p \<noteq> Some path \<longrightarrow>
      fst (snd (update_config_file Y pr e p c fs)) path = fs path"
    by (simp add: update_config_file_frame)
  show "\<not> fst (update_config_file Y pr e p c fs) \<and> fst (snd (update_config_file Y pr e p c fs)) \<noteq> fs \<longrightarrow>
      (\<exists>n file text cfg new_config.
         write_fault e = FailsAfter n \<and> config_file_map pr p = Some file \<and>
         fs file = Some text \<and> safe_load Y text = Some cfg \<and>
         update_cookie p cfg c = Some new_config \<and>
         fst (snd (update_config_file Y pr e p c fs)) = fs(file \<mapsto> take n (dump Y new_config)))"
    by (auto simp: update_config_file_def split: option.splits write_fault.splits if_splits)
qed

theorem update_config_file_failure_witness:
  "\<not> fst (update_config_file (sample_lib ''bilibili'' ''cookie'') ''/app''
            (sample_env Raises NoFault) ''bilibili'' ''SESSDATA=abc'' sample_files) \<and>
   fst (snd (update_config_file (sample_lib ''bilibili'' ''cookie'') ''/app''
            (sample_env Raises NoFault) ''bilibili'' ''SESSDATA=abc'' sample_files)) = sample_files"
proof -
  have failed: "\<not> fst (update_config_file (sample_lib ''bilibili'' ''cookie'') ''/app''
            (sample_env Raises NoFault) ''bilibili'' ''SESSDATA=abc'' sample_files)"
    by code_simp
  have fault: "\<forall>n. write_fault (sample_env Raises NoFault) \<noteq> FailsAfter n"
    by (simp add: sample_env_def)
  show ?thesis
    using update_config_file_failure
      [of "sample_lib ''bilibili'' ''cookie''" "''/app''" "sample_env Raises NoFault"
          "''bilibili''" "''SESSDATA=abc''" sample_files] failed fault
    by blast
qed

text \<open>
  The claim as stated fails: a dump that fails after three characters leaves the
  configuration file of douyin with the text \<open>coo\<close> in place of \<open>cookie=old\<close>.
\<close>

theorem update_config_file_half_written:
  "\<not> fst (update_config_file (sample_lib ''douyin'' ''Cookie'') ''/app''
            (sample_env Raises (FailsAfter 3)) ''douyin'' ''sessionid=abc'' sample_files) \<and>
   sample_files ''/app/crawlers/douyin/web/config.yaml'' = Some ''cookie=old'' \<and>
   fst (snd (update_config_file (sample_lib ''douyin'' ''Cookie'') ''/app''
            (sample_env Raises (FailsAfter 3)) ''douyin'' ''sessionid=abc'' sample_files))
     ''/app/crawlers/douyin/web/config.yaml'' = Some ''coo''"
  by code_simp

text \<open>
  Claim C10. \<^verbatim>\<open>update_config_file\<close> returns \<^verbatim>\<open>True\<close> only for the platforms douyin,
  tiktok and bilibili. For every other name it returns \<^verbatim>\<open>False\<close> with the files as
  they were and without any file operation, and when such a name is a key of the mapping
  its entry in the result of \<^verbatim>\<open>refresh_all_cookies\<close> is \<^verbatim>\<open>False\<close>, whatever its
  resolution gave.
\<close>

theorem update_config_file_unsupported:
  "(fst (update_config_file Y pr e p c fs) \<longrightarrow> p \<in> {''douyin'', ''tiktok'', ''bilibili''}) \<and>
   (p \<notin> {''douyin'', ''tiktok'', ''bilibili''} \<longrightarrow>
      update_config_file Y pr e p c fs = (False, fs, []) \<and>
      (p \<in> fst ` set (domain_mapping m) \<longrightarrow>
         results (refresh_all_cookies Y pr E m fs) p = Some False))"
proof (intro conjI impI)
  assume "fst (update_config_file Y pr e p c fs)"
  then obtain cfile where "config_file_map pr p = Some cfile"
    by (cases "config_file_map pr p") (auto simp: update_config_file_def)
  then show "p \<in> {''douyin'', ''tiktok'', ''bilibili''}"
    by (rule config_file_map_Some)
next
  assume other: "p \<notin> {''douyin'', ''tiktok'', ''bilibili''}"
  then have none: "config_file_map pr p = None"
    by (simp add: config_file_map_def)
  then show "update_config_file Y pr e p c fs = (False, fs, [])"
    by (simp add: update_config_file_def)
  assume "p \<in> fst ` set (domain_mapping m)"
  then have "results (refresh_all_cookies Y pr E m fs) p =
      Some (refresh_and_persist Y pr (E p) m fs p)"
    by (rule refresh_loop_entry)
  moreover have "\<not> refresh_and_persist Y pr (E p) m fs p"
    using none by (simp add: refresh_and_persist_def update_config_file_def split: option.splits)
  ultimately show "results (refresh_all_cookies Y pr E m fs) p = Some False"
    by simp
qed

theorem update_config_file_unsupported_witness:
  "fst (get_cookies sample_manager_youtube (sample_env (Returned (Some sample_data)) NoFault)
          ''youtube'' True) = Some ''SID=xyz'' \<and>
   update_config_file (sample_lib ''douyin'' ''Cookie'') ''/app''
       (sample_env (Returned (Some sample_data)) NoFault) ''youtube'' ''SID=xyz'' sample_files
     = (False, sample_files, []) \<and>
   results (refresh_all_cookies (sample_lib ''douyin'' ''Cookie'') ''/app''
       (\<lambda>p. sample_env (Returned (Some sample_data)) NoFault) sample_manager_youtube sample_files)
     ''youtube'' = Some False"
proof -
  have resolved: "fst (get_cookies sample_manager_youtube
      (sample_env (Returned (Some sample_data)) NoFault) ''youtube'' True) = Some ''SID=xyz''"
    by code_simp
  have other: "''youtube'' \<notin> {''douyin'', ''tiktok'', ''bilibili''}"
    by simp
  have mapped: "''youtube'' \<in> fst ` set (domain_mapping sample_manager_youtube)"
    by (simp add: sample_manager_youtube_def)
  show ?thesis
    using update_config_file_unsupported
      [of "sample_lib ''douyin'' ''Cookie''" "''/app''"
          "sample_env (Returned (Some sample_data)) NoFault" "''youtube''" "''SID=xyz''"
          sample_files sample_manager_youtube
          "\<lambda>p. sample_env (Returned (Some sample_data)) NoFault"]
      resolved other mapped
    by blast
qed

text \<open>
  Claim C3, as amended. \<^verbatim>\<open>refresh_all_cookies\<close> gives a platform that is not a key of
  the mapping no entry in its result, leaves the platform's cache entry and timestamp as
  they were, and neither changes nor opens for writing the platform's configuration
  file. (\<^verbatim>\<open>get_cookies\<close> and \<^verbatim>\<open>update_config_file\<close> do not look the platform up in
  the mapping before they store or write.)
\<close>

theorem refresh_all_cookies_unmapped:
  "p \<notin> fst ` set (domain_mapping m) \<Longrightarrow>
     results (refresh_all_cookies Y pr E m fs) p = None \<and>
     cache (mgr (refresh_all_cookies Y pr E m fs)) p = cache m p \<and>
     cache_timestamps (mgr (refresh_all_cookies Y pr E m fs)) p = cache_timestamps m p \<and>
     (\<forall>cfile. config_file_map pr p = Some cfile \<longrightarrow>
        disk (refresh_all_cookies Y pr E m fs) cfile = fs cfile \<and>
        WriteFile cfile \<notin> set (io_log (refresh_all_cookies Y pr E m fs)))"
proof -
  let ?s = "\<lparr>mgr = m, disk = fs, results = Map.empty, io_log = []\<rparr>"
  let ?ps = "dict_keys (domain_mapping m)"
  assume "p \<notin> fst ` set (domain_mapping m)"
  then have out: "p \<notin> set ?ps" by (simp add: dict_keys_set)
  have a: "results (fold (refresh_step Y pr E) ?ps ?s) p = None \<and>
     cache (mgr (fold (refresh_step Y pr E) ?ps ?s)) p = cache m p \<and>
     cache_timestamps (mgr (fold (refresh_step Y pr E) ?ps ?s)) p = cache_timestamps m p"
    using refresh_fold_untouched [OF out, of Y pr E ?s] by simp
  have b: "\<And>cfile. config_file_map pr p = Some cfile \<Longrightarrow>
      disk (fold (refresh_step Y pr E) ?ps ?s) cfile = fs cfile"
    using refresh_fold_disk [OF out, of pr _ Y E ?s] by simp
  have c: "\<And>cfile. config_file_map pr p = Some cfile \<Longrightarrow>
      WriteFile cfile \<notin> set (io_log (fold (refresh_step Y pr E) ?ps ?s))"
  proof
    fix cfile
    assume cf: "config_file_map pr p = Some cfile"
      and w: "WriteFile cfile \<in> set (io_log (fold (refresh_step Y pr E) ?ps ?s))"
    have "WriteFile cfile \<in> set (io_log ?s)"
      by (rule refresh_fold_log [OF out cf _ w]) simp
    then show False by simp
  qed
  show ?thesis
    unfolding refresh_all_cookies_def using a b c by blast
qed

theorem refresh_all_cookies_unmapped_witness:
  "results (refresh_all_cookies (sample_lib ''douyin'' ''Cookie'') ''/app'' sample_world
      sample_manager sample_files) ''tiktok'' = None \<and>
   cache (mgr (refresh_all_cookies (sample_lib ''douyin'' ''Cookie'') ''/app'' sample_world
      sample_manager sample_files)) ''tiktok'' = None \<and>
   disk (refresh_all_cookies (sample_lib ''douyin'' ''Cookie'') ''/app'' sample_world
      sample_manager sample_files) ''/app/crawlers/tiktok/web/config.yaml''
     = Some ''cookie=old-tiktok''"
proof -
  have un: "''tiktok'' \<notin> fst ` set (domain_mapping sample_manager)"
    by (simp add: sample_manager_def)
  have cf: "config_file_map ''/app'' ''tiktok'' = Some ''/app/crawlers/tiktok/web/config.yaml''"
    by (simp add: config_file_map_def)
  have c0: "cache sample_manager ''tiktok'' = None"
    by (simp add: sample_manager_def)
  have f0: "sample_files ''/app/crawlers/tiktok/web/config.yaml'' = Some ''cookie=old-tiktok''"
    by (simp add: sample_files_def)
  show ?thesis
    using refresh_all_cookies_unmapped
      [OF un, of "sample_lib ''douyin'' ''Cookie''" "''/app''" sample_world sample_files]
      cf c0 f0
    by simp
qed

text \<open>
  The claim as stated fails: youtube and tiktok are no keys of the sample mapping, yet
  \<^verbatim>\<open>get_cookies\<close> stores a cache entry for youtube, resolved against
  \<open>youtube.com\<close>, and \<^verbatim>\<open>update_config_file\<close> writes the configuration file of
  tiktok.
\<close>

theorem unmapped_platform_cached_and_written:
  "''youtube'' \<notin> fst ` set (domain_mapping sample_manager) \<and>
   cache sample_manager ''youtube'' = None \<and>
   cache (snd (get_cookies sample_manager (sample_env (Returned (Some sample_data)) NoFault)
                 ''youtube'' False)) ''youtube'' = Some ''SID=xyz'' \<and>
   ''tiktok'' \<notin> fst ` set (domain_mapping sample_manager) \<and>
   update_config_file (sample_lib ''tiktok'' ''Cookie'') ''/app''
       (sample_env Raises NoFault) ''tiktok'' ''tt=1'' sample_files
     = (True, sample_files(''/app/crawlers/tiktok/web/config.yaml'' \<mapsto> ''cookie=tt=1''),
        [Probe ''/app/crawlers/tiktok/web/config.yaml'',
         ReadFile ''/app/crawlers/tiktok/web/config.yaml'',
         WriteFile ''/app/crawlers/tiktok/web/config.yaml''])"
proof (intro conjI)
  show "''youtube'' \<notin> fst ` set (domain_mapping sample_manager)"
    by (simp add: sample_manager_def)
  show "cache sample_manager ''youtube'' = None"
    by (simp add: sample_manager_def)
  show "cache (snd (get_cookies sample_manager (sample_env (Returned (Some sample_data)) NoFault)
                 ''youtube'' False)) ''youtube'' = Some ''SID=xyz''"
    by code_simp
  show "''tiktok'' \<notin> fst ` set (domain_mapping sample_manager)"
    by (simp add: sample_manager_def)
  have ok: "fst (update_config_file (sample_lib ''tiktok'' ''Cookie'') ''/app''
       (sample_env Raises NoFault) ''tiktok'' ''tt=1'' sample_files)"
    by code_simp
  show "update_config_file (sample_lib ''tiktok'' ''Cookie'') ''/app''
       (sample_env Raises NoFault) ''tiktok'' ''tt=1'' sample_files
     = (True, sample_files(''/app/crawlers/tiktok/web/config.yaml'' \<mapsto> ''cookie=tt=1''),
        [Probe ''/app/crawlers/tiktok/web/config.yaml'',
         ReadFile ''/app/crawlers/tiktok/web/config.yaml'',
         WriteFile ''/app/crawlers/tiktok/web/config.yaml''])"
    by (simp add: update_config_file_def config_file_map_def sample_files_def sample_env_def
        sample_lib_def sample_config_def update_cookie_def set_cookie_field_def
        sample_cookie_text_def)
qed

text \<open>
  Claim C6. The result of \<^verbatim>\<open>refresh_all_cookies\<close> has an entry for the keys of the
  mapping and for nothing else. The entry of a platform is the outcome of its own
  refresh from the state before the loop: it is \<^verbatim>\<open>True\<close> exactly when the forced
  resolution gives a cookie and the persist of that cookie returns \<^verbatim>\<open>True\<close> (the
  loop persists a cookie that is not the empty string). What the world answers during
  the turns of the other platforms, failures included, does not change the entry.
\<close>

theorem refresh_all_cookies_results:
  "dom (results (refresh_all_cookies Y pr E m fs)) = fst ` set (domain_mapping m) \<and>
   (\<forall>p \<in> fst ` set (domain_mapping m).
      results (refresh_all_cookies Y pr E m fs) p =
        Some (refresh_and_persist Y pr (E p) m fs p) \<and>
      (results (refresh_all_cookies Y pr E m fs) p = Some True \<longleftrightarrow>
         (\<exists>cookie. fst (get_cookies m (E p) p True) = Some cookie \<and> cookie \<noteq> [] \<and>
            fst (update_config_file Y pr (E p) p cookie fs)))) \<and>
   (\<forall>E' p. E' p = E p \<longrightarrow>
      results (refresh_all_cookies Y pr E' m fs) p = results (refresh_all_cookies Y pr E m fs) p)"
proof (intro conjI ballI allI impI)
  show "dom (results (refresh_all_cookies Y pr E m fs)) = fst ` set (domain_mapping m)"
    by (rule refresh_loop_keys)
next
  fix p
  assume mapped: "p \<in> fst ` set (domain_mapping m)"
  then show res: "results (refresh_all_cookies Y pr E m fs) p =
      Some (refresh_and_persist Y pr (E p) m fs p)"
    by (rule refresh_loop_entry)
  show "results (refresh_all_cookies Y pr E m fs) p = Some True \<longleftrightarrow>
      (\<exists>cookie. fst (get_cookies m (E p) p True) = Some cookie \<and> cookie \<noteq> [] \<and>
         fst (update_config_file Y pr (E p) p cookie fs))"
    unfolding res by (simp add: refresh_and_persist_def split: option.splits)
next
  fix E' p
  assume same: "E' p = E p"
  show "results (refresh_all_cookies Y pr E' m fs) p = results (refresh_all_cookies Y pr E m fs) p"
  proof (cases "p \<in> fst ` set (domain_mapping m)")
    case True
    then show ?thesis
      using refresh_loop_entry [of p m Y pr E fs]
        refresh_loop_entry [of p m Y pr E' fs] same
      by simp
  next
    case False
    then have "p \<notin> dom (results (refresh_all_cookies Y pr E m fs))"
      and "p \<notin> dom (results (refresh_all_cookies Y pr E' m fs))"
      by (simp_all add: refresh_loop_keys)
    then show ?thesis by (simp add: domIff)
  qed
qed

theorem refresh_all_cookies_results_witness:
  "results (refresh_all_cookies (sample_lib ''douyin'' ''Cookie'') ''/app'' sample_world
      sample_manager sample_files) ''douyin'' = Some True \<and>
   results (refresh_all_cookies (sample_lib ''douyin'' ''Cookie'') ''/app'' sample_world
      sample_manager sample_files) ''bilibili'' = Some False \<and>
   dom (results (refresh_all_cookies (sample_lib ''douyin'' ''Cookie'') ''/app'' sample_world
      sample_manager sample_files)) = {''douyin'', ''bilibili''}"
proof -
  have keys: "fst ` set (domain_mapping sample_manager) = {''douyin'', ''bilibili''}"
    by (simp add: sample_manager_def)
  have good: "refresh_and_persist (sample_lib ''douyin'' ''Cookie'') ''/app''
      (sample_world ''douyin'') sample_manager sample_files ''douyin''"
    by code_simp
  have bad: "\<not> refresh_and_persist (sample_lib ''douyin'' ''Cookie'') ''/app''
      (sample_world ''bilibili'') sample_manager sample_files ''bilibili''"
    by code_simp
  show ?thesis
    using refresh_all_cookies_results
      [of "sample_lib ''douyin'' ''Cookie''" "''/app''" sample_world sample_manager sample_files]
      keys good bad
    by simp
qed

end
